theory Spec2Isabelle
  imports Complex_Main "HOL-Library.Word" "HOL-Library.Signed_Division" "HOL-Library.Monad_Syntax"
begin

unbundle bit_operations_syntax

section \<open>The Kontrol F1 driver: input report codec, change detection, LED output\<close>

text \<open>
  A shallow embedding of the report codec of the driver. Conventions:
  \<^item> \<open>unsigned char\<close> is \<open>8 word\<close>, \<open>uint16_t\<close> is \<open>16 word\<close>, \<open>int\<close> is \<open>int\<close>
    (no value in these functions comes near the 32-bit limits);
  \<^item> a byte buffer is a list of bytes; a read or write outside the buffer, a shift by a
    count outside the width of \<open>int\<close> and an array access outside its bounds have no defined
    result in C++: the model returns \<open>None\<close> there, and \<open>Some\<close> of the result otherwise;
  \<^item> messages printed on the error stream are values of a log type where a claim is about
    them, and left out elsewhere;
  \<^item> \<open>float\<close> arithmetic is real arithmetic followed by a rounding function \<open>rnd\<close>, which is
    a parameter of the model (the identity gives exact arithmetic).
\<close>

type_synonym u8 = "8 word"
type_synonym u16 = "16 word"

subsection \<open>C++ primitives\<close>

text \<open>\<open>buffer[i]\<close>, for a byte buffer or any other array: defined inside its bounds only.\<close>

definition rd :: "'a list \<Rightarrow> int \<Rightarrow> 'a option" where
  "rd buffer i = (if 0 \<le> i \<and> i < int (length buffer) then Some (buffer ! nat i) else None)"

text \<open>\<open>buffer[i] = v\<close>: defined inside the bounds only.\<close>

definition wr :: "'a list \<Rightarrow> int \<Rightarrow> 'a \<Rightarrow> 'a list option" where
  "wr buffer i v = (if 0 \<le> i \<and> i < int (length buffer) then Some (buffer[nat i := v]) else None)"

text \<open>
  \<open>a << n\<close> on \<open>int\<close>: defined for a non-negative operand, a count in \<open>[0, 32)\<close> and a
  result that fits in \<open>unsigned int\<close>; the result is that value as an \<open>int\<close>, which is
  negative from \<open>2 ^ 31\<close> on (so \<open>1 << 31\<close> is the least \<open>int\<close>).
\<close>

definition shl :: "int \<Rightarrow> int \<Rightarrow> int option" where
  "shl a n = (if 0 \<le> a \<and> 0 \<le> n \<and> n < 32 \<and> a * 2 ^ nat n < 2 ^ 32
              then Some (if a * 2 ^ nat n < 2 ^ 31 then a * 2 ^ nat n
                         else a * 2 ^ nat n - 2 ^ 32)
              else None)"

text \<open>The conversion of an \<open>int\<close> to \<open>unsigned char\<close> keeps the low eight bits.\<close>

definition to_uchar :: "int \<Rightarrow> u8" where
  "to_uchar k = word_of_int k"

subsection \<open>Constants of the input report (\<open>input_reader_base.h\<close>)\<close>

definition INPUT_REPORT_SIZE :: int where "INPUT_REPORT_SIZE = 22"
definition INPUT_REPORT_ID :: u8 where "INPUT_REPORT_ID = 0x01"
definition BUTTON_BYTE_SPECIAL :: int where "BUTTON_BYTE_SPECIAL = 3"
definition BUTTON_BYTE_STOP_AND_CONTROL :: int where "BUTTON_BYTE_STOP_AND_CONTROL = 4"

definition BIT_MASK_SYNC :: u8 where "BIT_MASK_SYNC = 0x08"
definition BIT_MASK_QUANT :: u8 where "BIT_MASK_QUANT = 0x04"
definition BIT_MASK_CAPTURE :: u8 where "BIT_MASK_CAPTURE = 0x02"

datatype ControlButton = SYNC | QUANT | CAPTURE

subsection \<open>Reading a report (\<open>readInputReport\<close>)\<close>

text \<open>
  The function's inputs are the two pointers (here: whether each is non-null) and what
  \<open>hid_read\<close> did: the number it returned and the buffer's contents afterwards. Its outputs
  are the boolean result and the messages written to the error stream.
\<close>

datatype log_msg = DeviceIsNull | BufferIsNull | WrongReportId u8

definition readInputReport :: "bool \<Rightarrow> bool \<Rightarrow> int \<Rightarrow> u8 list \<Rightarrow> (bool \<times> log_msg list) option" where
  "readInputReport device_ok buffer_ok bytes_read buffer =
     (if \<not> device_ok then Some (False, [DeviceIsNull])
      else if \<not> buffer_ok then Some (False, [BufferIsNull])
      else if bytes_read \<le> 0 then Some (False, [])
      else do {
        b0 \<leftarrow> rd buffer 0;
        if b0 \<noteq> INPUT_REPORT_ID then Some (False, [WrongReportId b0])
        else Some (True, [])
      })"

subsection \<open>Button accessors (\<open>input_reader_base.cpp\<close>)\<close>

definition isSpecialButtonPressed :: "u8 list \<Rightarrow> int \<Rightarrow> bool option" where
  "isSpecialButtonPressed buffer index =
     (if index < 6 then do {
        special_byte \<leftarrow> rd buffer BUTTON_BYTE_SPECIAL;
        m \<leftarrow> shl 0x01 (7 - index);
        Some (special_byte AND to_uchar m \<noteq> 0)
      } else do {
        control_byte \<leftarrow> rd buffer BUTTON_BYTE_STOP_AND_CONTROL;
        m \<leftarrow> shl 0x01 (3 - (index - 6));
        Some (control_byte AND to_uchar m \<noteq> 0)
      })"

definition isStopButtonPressed :: "u8 list \<Rightarrow> int \<Rightarrow> bool option" where
  "isStopButtonPressed buffer button = do {
     stop_byte \<leftarrow> rd buffer BUTTON_BYTE_STOP_AND_CONTROL;
     m \<leftarrow> shl 0x01 (7 - button);
     Some (stop_byte AND to_uchar m \<noteq> 0)
   }"

text \<open>
  The accessor of the control buttons by name; its buffer is a pointer that the function
  tests for null (\<open>None\<close> here).
\<close>

definition isControlButtonPressed :: "u8 list option \<Rightarrow> ControlButton \<Rightarrow> bool option" where
  "isControlButtonPressed buffer button =
     (case buffer of
        None \<Rightarrow> Some False
      | Some buf \<Rightarrow> do {
          control_byte \<leftarrow> rd buf BUTTON_BYTE_STOP_AND_CONTROL;
          let button_mask = (case button of
                               SYNC \<Rightarrow> BIT_MASK_SYNC
                             | QUANT \<Rightarrow> BIT_MASK_QUANT
                             | CAPTURE \<Rightarrow> BIT_MASK_CAPTURE);
          Some (control_byte AND button_mask \<noteq> 0)
        })"

definition isMatrixButtonPressed :: "u8 list \<Rightarrow> int \<Rightarrow> int \<Rightarrow> bool option" where
  "isMatrixButtonPressed buffer row col = do {
     m \<leftarrow> shl 0x01 (3 - col);
     m' \<leftarrow> shl m ((1 - (row smod 2)) * 4);
     b \<leftarrow> rd buffer ((row sdiv 2) + 1);
     Some (b AND to_uchar m' \<noteq> 0)
   }"

subsection \<open>Analog controls (\<open>input_reader_fader.cpp\<close>, \<open>input_reader_knob.cpp\<close>)\<close>

definition FADER_BYTE_START :: int where "FADER_BYTE_START = 14"
definition FADER_COUNT :: int where "FADER_COUNT = 4"
definition FADER_BYTES_PER_FADER :: int where "FADER_BYTES_PER_FADER = 2"
definition FADER_RAW_MIN :: u16 where "FADER_RAW_MIN = 0x000"
definition FADER_RAW_MAX :: u16 where "FADER_RAW_MAX = 0xFFF"
definition FADER_12BIT_MASK :: u16 where "FADER_12BIT_MASK = 0x0FFF"

text \<open>
  Modelled from the spec: the header \<open>input_reader_knob.h\<close>, which declares
  \<open>KNOB_RAW_MAX\<close>, is not among the sources. The spec gives a knob a raw 12-bit sample
  (0 to 4095), and the comment of \<open>KnobInputReader::rawToNormalized\<close> says the same.
\<close>

definition KNOB_RAW_MAX :: u16 where "KNOB_RAW_MAX = 0xFFF"

text \<open>The conversion of a \<open>float\<close> to \<open>int\<close> drops the fraction (towards zero).\<close>

definition c_trunc :: "real \<Rightarrow> int" where
  "c_trunc x = (if 0 \<le> x then \<lfloor>x\<rfloor> else \<lceil>x\<rceil>)"

text \<open>
  \<open>int normalized_value = (float)raw_value / (float)FADER_RAW_MAX * 127.0f\<close>: the two
  conversions to \<open>float\<close> are exact, the quotient and the product are rounded, the result is
  truncated to \<open>int\<close> and returned as a \<open>float\<close>.
\<close>

definition FaderInputReader_rawToNormalized :: "(real \<Rightarrow> real) \<Rightarrow> u16 \<Rightarrow> real" where
  "FaderInputReader_rawToNormalized rnd raw_value =
     (let normalized_value =
            c_trunc (rnd (rnd (real (unat raw_value) / real (unat FADER_RAW_MAX)) * 127))
      in real_of_int normalized_value)"

definition KnobInputReader_rawToNormalized :: "(real \<Rightarrow> real) \<Rightarrow> u16 \<Rightarrow> real" where
  "KnobInputReader_rawToNormalized rnd raw_value =
     (let normalized_value =
            c_trunc (rnd (rnd (real (unat raw_value) / real (unat KNOB_RAW_MAX)) * 127))
      in real_of_int normalized_value)"

definition FaderInputReader_clampRawValue :: "u16 \<Rightarrow> u16" where
  "FaderInputReader_clampRawValue raw_value =
     (if raw_value < FADER_RAW_MIN then FADER_RAW_MIN
      else if raw_value > FADER_RAW_MAX then FADER_RAW_MAX
      else raw_value)"

text \<open>
  \<open>buffer[lsb] | (buffer[msb] << 8)\<close> is computed in \<open>int\<close> and stored in a \<open>uint16_t\<close>.
\<close>

definition FaderInputReader_extractRawFaderValue :: "u8 list \<Rightarrow> int \<Rightarrow> u16 option" where
  "FaderInputReader_extractRawFaderValue buffer fader_number = do {
     let byte_offset = fader_number * FADER_BYTES_PER_FADER;
     let lsb_position = FADER_BYTE_START + byte_offset;
     let msb_position = FADER_BYTE_START + byte_offset + 1;
     lsb \<leftarrow> rd buffer lsb_position;
     msb \<leftarrow> rd buffer msb_position;
     let raw_value = (word_of_int (uint lsb OR push_bit 8 (uint msb)) :: u16);
     let raw_value = raw_value AND FADER_12BIT_MASK;
     Some (FaderInputReader_clampRawValue raw_value)
   }"

definition FaderInputReader_getFaderValue :: "(real \<Rightarrow> real) \<Rightarrow> u8 list \<Rightarrow> int \<Rightarrow> real option" where
  "FaderInputReader_getFaderValue rnd buffer fader_number = do {
     raw_value \<leftarrow> FaderInputReader_extractRawFaderValue buffer fader_number;
     Some (FaderInputReader_rawToNormalized rnd raw_value)
   }"

subsection \<open>Change detection (\<open>ControllerHandler\<close>)\<close>

text \<open>The calls on the delegate, in the order they are made.\<close>

datatype event =
    ButtonPress int
  | ButtonRelease int
  | MatrixButtonPress int int
  | MatrixButtonRelease int int
  | KnobChanged int int
  | SliderChanged int int

text \<open>
  \<open>updateButtons\<close>: the state is the global array \<open>specialPressed[9]\<close>. The first loop
  runs over the nine special and control buttons, the second over the four stop buttons.
\<close>

definition special_iteration :: "u8 list \<Rightarrow> int \<Rightarrow> bool list \<Rightarrow> (event list \<times> bool list) option" where
  "special_iteration input_buffer i specialPressed = do {
     pressed \<leftarrow> isSpecialButtonPressed input_buffer i;
     was \<leftarrow> rd specialPressed i;
     if pressed then
       (if \<not> was then do {
          sp \<leftarrow> wr specialPressed i True;
          Some ([ButtonPress (4 + i)], sp)
        } else Some ([], specialPressed))
     else if was then do {
       sp \<leftarrow> wr specialPressed i False;
       Some ([ButtonRelease (4 + i)], sp)
     } else Some ([], specialPressed)
   }"

fun special_loop :: "u8 list \<Rightarrow> int list \<Rightarrow> bool list \<Rightarrow> (event list \<times> bool list) option" where
  "special_loop input_buffer [] specialPressed = Some ([], specialPressed)"
| "special_loop input_buffer (i # rest) specialPressed = do {
     (ev, sp) \<leftarrow> special_iteration input_buffer i specialPressed;
     (evs, sp') \<leftarrow> special_loop input_buffer rest sp;
     Some (ev @ evs, sp')
   }"

definition stop_iteration :: "u8 list \<Rightarrow> int \<Rightarrow> event list option" where
  "stop_iteration input_buffer i = do {
     pressed \<leftarrow> isStopButtonPressed input_buffer i;
     Some (if pressed then [ButtonPress i] else [])
   }"

fun stop_loop :: "u8 list \<Rightarrow> int list \<Rightarrow> event list option" where
  "stop_loop input_buffer [] = Some []"
| "stop_loop input_buffer (i # rest) = do {
     ev \<leftarrow> stop_iteration input_buffer i;
     evs \<leftarrow> stop_loop input_buffer rest;
     Some (ev @ evs)
   }"

definition updateButtons :: "u8 list \<Rightarrow> bool list \<Rightarrow> (event list \<times> bool list) option" where
  "updateButtons input_buffer specialPressed = do {
     (ev, sp) \<leftarrow> special_loop input_buffer [0, 1, 2, 3, 4, 5, 6, 7, 8] specialPressed;
     evs \<leftarrow> stop_loop input_buffer [0, 1, 2, 3];
     Some (ev @ evs, sp)
   }"

text \<open>
  \<open>updateFaderStates\<close>. \<open>AnalogControlState\<close> holds, for each of the four faders, the
  previous truncated value, the dirty flag and the time of the last change; a time point is
  a count of nanoseconds, and \<open>duration_cast<milliseconds>\<close> truncates towards zero. Each
  iteration of the loop reads the clock once: \<open>clock fader\<close> is the reading in the
  iteration of \<open>fader\<close>.
\<close>

record AnalogControlState =
  previous_knob_values :: "int list"
  previous_fader_values :: "int list"
  is_fader_value_dirty :: "bool list"
  last_slider_change :: "int list"

definition elapsed_ms :: "int \<Rightarrow> int \<Rightarrow> int" where
  "elapsed_ms now since = (now - since) sdiv 1000000"

definition fader_iteration ::
  "(real \<Rightarrow> real) \<Rightarrow> u8 list \<Rightarrow> int \<Rightarrow> int \<Rightarrow> AnalogControlState
     \<Rightarrow> (event list \<times> AnalogControlState) option" where
  "fader_iteration rnd input_buffer now fader analog_state = do {
     v \<leftarrow> FaderInputReader_getFaderValue rnd input_buffer fader;
     let current_value = c_trunc v;
     previous_value \<leftarrow> rd (previous_fader_values analog_state) fader;
     dirty \<leftarrow> rd (is_fader_value_dirty analog_state) fader;
     st1 \<leftarrow> (if current_value \<noteq> previous_value \<and> \<not> dirty then do {
               l \<leftarrow> wr (last_slider_change analog_state) fader now;
               d \<leftarrow> wr (is_fader_value_dirty analog_state) fader True;
               Some (analog_state\<lparr>last_slider_change := l, is_fader_value_dirty := d\<rparr>)
             } else Some analog_state);
     dirty1 \<leftarrow> rd (is_fader_value_dirty st1) fader;
     last1 \<leftarrow> rd (last_slider_change st1) fader;
     (ev, st2) \<leftarrow> (if dirty1 \<and> elapsed_ms now last1 > 50 then do {
               d \<leftarrow> wr (is_fader_value_dirty st1) fader False;
               l \<leftarrow> wr (last_slider_change st1) fader now;
               Some ([SliderChanged fader (current_value * 2)],
                     st1\<lparr>is_fader_value_dirty := d, last_slider_change := l\<rparr>)
             } else Some ([], st1));
     p \<leftarrow> wr (previous_fader_values st2) fader current_value;
     Some (ev, st2\<lparr>previous_fader_values := p\<rparr>)
   }"

fun fader_loop ::
  "(real \<Rightarrow> real) \<Rightarrow> u8 list \<Rightarrow> (int \<Rightarrow> int) \<Rightarrow> int list \<Rightarrow> AnalogControlState
     \<Rightarrow> (event list \<times> AnalogControlState) option" where
  "fader_loop rnd input_buffer clock [] analog_state = Some ([], analog_state)"
| "fader_loop rnd input_buffer clock (fader # rest) analog_state = do {
     (ev, st) \<leftarrow> fader_iteration rnd input_buffer (clock fader) fader analog_state;
     (evs, st') \<leftarrow> fader_loop rnd input_buffer clock rest st;
     Some (ev @ evs, st')
   }"

definition updateFaderStates ::
  "(real \<Rightarrow> real) \<Rightarrow> u8 list \<Rightarrow> (int \<Rightarrow> int) \<Rightarrow> AnalogControlState
     \<Rightarrow> (event list \<times> AnalogControlState) option" where
  "updateFaderStates rnd input_buffer clock analog_state =
     fader_loop rnd input_buffer clock [0, 1, 2, 3] analog_state"

subsection \<open>LED output (\<open>led_controller_base.h\<close>, \<open>led_controller_base.cpp\<close>)\<close>

definition LED_REPORT_SIZE :: int where "LED_REPORT_SIZE = 81"
definition LED_REPORT_ID :: u8 where "LED_REPORT_ID = 0x80"
definition LED_BYTE_SPECIAL_START :: int where "LED_BYTE_SPECIAL_START = 17"
definition LED_BYTE_CONTROL_START :: int where "LED_BYTE_CONTROL_START = 22"
definition LED_BYTE_MATRIX_START :: int where "LED_BYTE_MATRIX_START = 25"
definition LED_BYTE_STOP_START :: int where "LED_BYTE_STOP_START = 73"
definition MATRIX_LEDS_PER_BUTTON :: int where "MATRIX_LEDS_PER_BUTTON = 3"
definition MATRIX_ROWS :: int where "MATRIX_ROWS = 4"
definition MATRIX_COLS :: int where "MATRIX_COLS = 4"

text \<open>
  The fields of \<open>BRGColor\<close> and the values of \<open>LEDButton\<close> carry a prefix here: their
  C++ names are those of palette colours and of \<open>ControlButton\<close> values. A parameter that
  the source calls \<open>brightness\<close> or \<open>color\<close> is \<open>bright\<close> or \<open>clr\<close>, the field of the state
  storage keeping the name.
\<close>

record BRGColor =
  c_blue :: u8
  c_red :: u8
  c_green :: u8

datatype LEDColor =
    black | red | orange | lightorange | warmyellow | yellow | lime | green | mint
  | cyan | turquise | blue | plum | violet | purple | magenta | fuchsia | white

datatype LEDButton =
    LED_CAPTURE | LED_QUANT | LED_SYNC | LED_BROWSE | LED_SIZE | LED_TYPE | LED_REVERSE | LED_SHIFT

text \<open>The cast \<open>(int)button\<close>: the position of the value in the enumeration.\<close>

fun LEDButton_to_int :: "LEDButton \<Rightarrow> int" where
  "LEDButton_to_int LED_CAPTURE = 0"
| "LEDButton_to_int LED_QUANT = 1"
| "LEDButton_to_int LED_SYNC = 2"
| "LEDButton_to_int LED_BROWSE = 3"
| "LEDButton_to_int LED_SIZE = 4"
| "LEDButton_to_int LED_TYPE = 5"
| "LEDButton_to_int LED_REVERSE = 6"
| "LEDButton_to_int LED_SHIFT = 7"

record LEDStateMatrix =
  color :: LEDColor
  brightness :: real

record LEDState =
  led_brightness :: real

text \<open>
  The globals of the LED controller: the output buffer and the four arrays of the state
  storage (\<open>matrix_states[5][5]\<close>, \<open>special_states[5]\<close>, \<open>control_states[3]\<close>,
  \<open>stop_states[4]\<close>).
\<close>

record led_globals =
  led_buffer :: "u8 list"
  matrix_states :: "LEDStateMatrix list list"
  special_states :: "LEDState list"
  control_states :: "LEDState list"
  stop_states :: "LEDState list"

text \<open>
  The globals after \<open>initializeLEDController\<close>: the buffer is cleared and starts with the
  report identifier, the state storage is off; the cells of \<open>matrix_states\<close> that the
  initialisation skips (row 0, column 0) hold the zero of static storage, which is
  \<open>black\<close> at brightness 0 as well.
\<close>

definition led_globals_after_init :: led_globals where
  "led_globals_after_init =
     \<lparr>led_buffer = LED_REPORT_ID # replicate 80 0,
      matrix_states = replicate 5 (replicate 5 \<lparr>color = black, brightness = 0\<rparr>),
      special_states = replicate 5 \<lparr>led_brightness = 0\<rparr>,
      control_states = replicate 3 \<lparr>led_brightness = 0\<rparr>,
      stop_states = replicate 4 \<lparr>led_brightness = 0\<rparr>\<rparr>"

text \<open>
  \<open>convertTo7Bit\<close>: \<open>(value_8bit * 127.0f / 255.0f) * brightness\<close> rounds after each of
  the three operations, and so does the addition of \<open>0.5f\<close>.
\<close>

definition convertTo7Bit :: "(real \<Rightarrow> real) \<Rightarrow> u8 \<Rightarrow> real \<Rightarrow> u8" where
  "convertTo7Bit rnd value_8bit bright =
     (let bright = (if bright < 0 then 0 else bright);
          bright = (if bright > 1 then 1 else bright);
          result = rnd (rnd (rnd (real (unat value_8bit) * 127) / 255) * bright);
          result = (if result < 0 then 0 else result);
          result = (if result > 127 then 127 else result)
      in to_uchar (c_trunc (rnd (result + 0.5))))"

definition isValidMatrixPosition :: "int \<Rightarrow> int \<Rightarrow> bool" where
  "isValidMatrixPosition row col = (row \<ge> 1 \<and> row \<le> MATRIX_ROWS \<and> col \<ge> 1 \<and> col \<le> MATRIX_COLS)"

definition getMatrixButtonState :: "led_globals \<Rightarrow> int \<Rightarrow> int \<Rightarrow> LEDStateMatrix option" where
  "getMatrixButtonState g row col =
     (if \<not> isValidMatrixPosition row col then Some \<lparr>color = black, brightness = 0\<rparr>
      else do {
        r \<leftarrow> rd (matrix_states g) row;
        rd r col
      })"

fun getColorWithBrightness :: "(real \<Rightarrow> real) \<Rightarrow> LEDColor \<Rightarrow> real \<Rightarrow> BRGColor" where
  "getColorWithBrightness rnd black bright =
     \<lparr>c_blue = convertTo7Bit rnd 0 bright,
      c_red = convertTo7Bit rnd 0 bright,
      c_green = convertTo7Bit rnd 0 bright\<rparr>"
| "getColorWithBrightness rnd red bright =
     \<lparr>c_blue = convertTo7Bit rnd 0 bright,
      c_red = convertTo7Bit rnd 255 bright,
      c_green = convertTo7Bit rnd 0 bright\<rparr>"
| "getColorWithBrightness rnd orange bright =
     \<lparr>c_blue = convertTo7Bit rnd 45 bright,
      c_red = convertTo7Bit rnd 255 bright,
      c_green = convertTo7Bit rnd 97 bright\<rparr>"
| "getColorWithBrightness rnd lightorange bright =
     \<lparr>c_blue = convertTo7Bit rnd 0 bright,
      c_red = convertTo7Bit rnd 255 bright,
      c_green = convertTo7Bit rnd 148 bright\<rparr>"
| "getColorWithBrightness rnd warmyellow bright =
     \<lparr>c_blue = convertTo7Bit rnd 0 bright,
      c_red = convertTo7Bit rnd 255 bright,
      c_green = convertTo7Bit rnd 213 bright\<rparr>"
| "getColorWithBrightness rnd yellow bright =
     \<lparr>c_blue = convertTo7Bit rnd 0 bright,
      c_red = convertTo7Bit rnd 255 bright,
      c_green = convertTo7Bit rnd 255 bright\<rparr>"
| "getColorWithBrightness rnd lime bright =
     \<lparr>c_blue = convertTo7Bit rnd 0 bright,
      c_red = convertTo7Bit rnd 144 bright,
      c_green = convertTo7Bit rnd 255 bright\<rparr>"
| "getColorWithBrightness rnd green bright =
     \<lparr>c_blue = convertTo7Bit rnd 0 bright,
      c_red = convertTo7Bit rnd 0 bright,
      c_green = convertTo7Bit rnd 255 bright\<rparr>"
| "getColorWithBrightness rnd mint bright =
     \<lparr>c_blue = convertTo7Bit rnd 165 bright,
      c_red = convertTo7Bit rnd 0 bright,
      c_green = convertTo7Bit rnd 255 bright\<rparr>"
| "getColorWithBrightness rnd cyan bright =
     \<lparr>c_blue = convertTo7Bit rnd 255 bright,
      c_red = convertTo7Bit rnd 0 bright,
      c_green = convertTo7Bit rnd 255 bright\<rparr>"
| "getColorWithBrightness rnd turquise bright =
     \<lparr>c_blue = convertTo7Bit rnd 255 bright,
      c_red = convertTo7Bit rnd 0 bright,
      c_green = convertTo7Bit rnd 206 bright\<rparr>"
| "getColorWithBrightness rnd blue bright =
     \<lparr>c_blue = convertTo7Bit rnd 255 bright,
      c_red = convertTo7Bit rnd 0 bright,
      c_green = convertTo7Bit rnd 49 bright\<rparr>"
| "getColorWithBrightness rnd plum bright =
     \<lparr>c_blue = convertTo7Bit rnd 218 bright,
      c_red = convertTo7Bit rnd 69 bright,
      c_green = convertTo7Bit rnd 49 bright\<rparr>"
| "getColorWithBrightness rnd violet bright =
     \<lparr>c_blue = convertTo7Bit rnd 217 bright,
      c_red = convertTo7Bit rnd 125 bright,
      c_green = convertTo7Bit rnd 41 bright\<rparr>"
| "getColorWithBrightness rnd purple bright =
     \<lparr>c_blue = convertTo7Bit rnd 255 bright,
      c_red = convertTo7Bit rnd 229 bright,
      c_green = convertTo7Bit rnd 18 bright\<rparr>"
| "getColorWithBrightness rnd magenta bright =
     \<lparr>c_blue = convertTo7Bit rnd 255 bright,
      c_red = convertTo7Bit rnd 255 bright,
      c_green = convertTo7Bit rnd 0 bright\<rparr>"
| "getColorWithBrightness rnd fuchsia bright =
     \<lparr>c_blue = convertTo7Bit rnd 136 bright,
      c_red = convertTo7Bit rnd 255 bright,
      c_green = convertTo7Bit rnd 0 bright\<rparr>"
| "getColorWithBrightness rnd white bright =
     \<lparr>c_blue = convertTo7Bit rnd 255 bright,
      c_red = convertTo7Bit rnd 255 bright,
      c_green = convertTo7Bit rnd 255 bright\<rparr>"

text \<open>
  The setters return what the transport says about sending the buffer; the transport is
  not part of the model, and the setters here return the globals they leave behind.
\<close>

definition setMatrixButtonLED_BRG ::
  "int \<Rightarrow> int \<Rightarrow> BRGColor \<Rightarrow> bool \<Rightarrow> led_globals \<Rightarrow> led_globals option" where
  "setMatrixButtonLED_BRG row col brg store_led_state g = do {
     let button_index = row * MATRIX_COLS + col;
     let base_byte = LED_BYTE_MATRIX_START + button_index * MATRIX_LEDS_PER_BUTTON;
     b1 \<leftarrow> wr (led_buffer g) base_byte (c_blue brg);
     b2 \<leftarrow> wr b1 (base_byte + 1) (c_red brg);
     b3 \<leftarrow> wr b2 (base_byte + 2) (c_green brg);
     Some (g\<lparr>led_buffer := b3\<rparr>)
   }"

definition setMatrixButtonLED ::
  "(real \<Rightarrow> real) \<Rightarrow> int \<Rightarrow> int \<Rightarrow> LEDColor \<Rightarrow> real \<Rightarrow> bool \<Rightarrow> led_globals \<Rightarrow> led_globals option" where
  "setMatrixButtonLED rnd row col clr bright store_led_state g =
     setMatrixButtonLED_BRG row col (getColorWithBrightness rnd clr bright) store_led_state g"

definition setButtonLED ::
  "(real \<Rightarrow> real) \<Rightarrow> LEDButton \<Rightarrow> real \<Rightarrow> bool \<Rightarrow> led_globals \<Rightarrow> led_globals option" where
  "setButtonLED rnd button bright store_led_state g = do {
     let index = LEDButton_to_int button;
     let bright = (if bright < 0 then 0 else bright);
     let bright = (if bright > 1 then 1 else bright);
     g1 \<leftarrow> (if store_led_state then do {
               s \<leftarrow> wr (special_states g) index \<lparr>led_brightness = bright\<rparr>;
               Some (g\<lparr>special_states := s\<rparr>)
             } else Some g);
     let led_value = convertTo7Bit rnd 255 bright;
     let byte_position = (if index < 3 then LED_BYTE_CONTROL_START + index
                          else LED_BYTE_SPECIAL_START + (index - 3));
     b \<leftarrow> wr (led_buffer g1) byte_position led_value;
     Some (g1\<lparr>led_buffer := b\<rparr>)
   }"

definition setStopButtonLED ::
  "(real \<Rightarrow> real) \<Rightarrow> int \<Rightarrow> real \<Rightarrow> bool \<Rightarrow> led_globals \<Rightarrow> led_globals option" where
  "setStopButtonLED rnd index bright store_led_state g = do {
     let bright = (if bright < 0 then 0 else bright);
     let bright = (if bright > 1 then 1 else bright);
     g1 \<leftarrow> (if store_led_state then do {
               s \<leftarrow> wr (stop_states g) index \<lparr>led_brightness = bright\<rparr>;
               Some (g\<lparr>stop_states := s\<rparr>)
             } else Some g);
     let led_value = convertTo7Bit rnd 255 bright;
     let left_byte = LED_BYTE_STOP_START + (7 - (index * 2));
     let right_byte = LED_BYTE_STOP_START + (7 - (index * 2)) - 1;
     b1 \<leftarrow> wr (led_buffer g1) right_byte led_value;
     b2 \<leftarrow> wr b1 left_byte led_value;
     Some (g1\<lparr>led_buffer := b2\<rparr>)
   }"

subsection \<open>Reports used as test inputs\<close>

text \<open>
  A 22-byte report with the given bytes 1 to 4 (the two matrix bytes, the special byte, the
  stop and control byte) and every other byte zero, and one with the given two bytes of
  fader 0 (bytes 14 and 15).
\<close>

definition button_frame :: "u8 \<Rightarrow> u8 \<Rightarrow> u8 \<Rightarrow> u8 \<Rightarrow> u8 list" where
  "button_frame b1 b2 b3 b4 = [INPUT_REPORT_ID, b1, b2, b3, b4] @ replicate 17 0"

definition fader_frame :: "u8 \<Rightarrow> u8 \<Rightarrow> u8 list" where
  "fader_frame lsb msb = [INPUT_REPORT_ID, 0, 0, 0, 0] @ replicate 9 0 @ [lsb, msb] @ replicate 6 0"

subsection \<open>Polling and the view of one fader\<close>

text \<open>
  The polling loop calls \<open>updateFaderStates\<close> once per frame; a frame is the report read and
  the clock readings of the call. The result lists the events of each frame.
\<close>

fun updateFaderStates_frames ::
  "(real \<Rightarrow> real) \<Rightarrow> (u8 list \<times> (int \<Rightarrow> int)) list \<Rightarrow> AnalogControlState
     \<Rightarrow> (event list list \<times> AnalogControlState) option" where
  "updateFaderStates_frames rnd [] analog_state = Some ([], analog_state)"
| "updateFaderStates_frames rnd ((input_buffer, clock) # frames) analog_state = do {
     (ev, st) \<leftarrow> updateFaderStates rnd input_buffer clock analog_state;
     (evs, st') \<leftarrow> updateFaderStates_frames rnd frames st;
     Some (ev # evs, st')
   }"

text \<open>The events of one fader among the events of a frame.\<close>

definition events_of_fader :: "int \<Rightarrow> event list \<Rightarrow> event list" where
  "events_of_fader f evs = filter (\<lambda>e. case e of SliderChanged g v \<Rightarrow> g = f | _ \<Rightarrow> False) evs"

text \<open>
  A state of the analog controls with four entries in each array, all values zero and no
  fader dirty, and the condition that the arrays of the faders have their four entries.
\<close>

definition analog_state_idle :: AnalogControlState where
  "analog_state_idle =
     \<lparr>previous_knob_values = [0, 0, 0, 0], previous_fader_values = [0, 0, 0, 0],
      is_fader_value_dirty = [False, False, False, False], last_slider_change = [0, 0, 0, 0]\<rparr>"

definition wf_analog :: "AnalogControlState \<Rightarrow> bool" where
  "wf_analog st = (length (previous_fader_values st) = 4 \<and> length (is_fader_value_dirty st) = 4
      \<and> length (last_slider_change st) = 4)"

text \<open>
  Used in the proofs only: the three entries of one fader, and what one iteration of the
  loop of \<open>updateFaderStates\<close> does to them (shown of \<open>fader_iteration\<close> in
  \<open>fader_iteration_step\<close> below).
\<close>

definition fader_channel :: "AnalogControlState \<Rightarrow> int \<Rightarrow> int \<times> bool \<times> int" where
  "fader_channel st f = (previous_fader_values st ! nat f, is_fader_value_dirty st ! nat f,
      last_slider_change st ! nat f)"

fun fader_channel_step ::
  "int \<Rightarrow> int \<Rightarrow> int \<Rightarrow> int \<times> bool \<times> int \<Rightarrow> event list \<times> (int \<times> bool \<times> int)" where
  "fader_channel_step f cur now (p, d, l) =
     (if d \<and> elapsed_ms now l > 50 then [SliderChanged f (cur * 2)] else [],
      (cur,
       if d then \<not> elapsed_ms now l > 50 else cur \<noteq> p,
       if d then (if elapsed_ms now l > 50 then now else l) else if cur \<noteq> p then now else l))"

section \<open>Properties\<close>

subsection \<open>Auxiliary facts\<close>

lemma length_button_frame: "length (button_frame b1 b2 b3 b4) = 22"
  by (simp add: button_frame_def)

lemma nth_button_frame:
  "button_frame b1 b2 b3 b4 ! 0 = INPUT_REPORT_ID"
  "button_frame b1 b2 b3 b4 ! 1 = b1"
  "button_frame b1 b2 b3 b4 ! 2 = b2"
  "button_frame b1 b2 b3 b4 ! 3 = b3"
  "button_frame b1 b2 b3 b4 ! 4 = b4"
  "button_frame b1 b2 b3 b4 ! Suc 0 = b1"
  by (simp_all add: button_frame_def numeral_nat)

lemma and_pow_bit: "(w AND to_uchar (2 ^ n) \<noteq> 0) = bit w n" for w :: u8
  by (simp add: to_uchar_def bit_iff_and_push_bit_not_eq_0 push_bit_eq_mult)

lemma and_const_bit:
  "(w AND 0x08 \<noteq> 0) = bit w 3" "(w AND 0x04 \<noteq> 0) = bit w 2" "(w AND 0x02 \<noteq> 0) = bit w 1"
  for w :: u8
  using and_pow_bit [of w 3] and_pow_bit [of w 2] and_pow_bit [of w 1]
  by (simp_all add: to_uchar_def)

lemma shl_small:
  "0 \<le> a \<Longrightarrow> 0 \<le> n \<Longrightarrow> n < 32 \<Longrightarrow> a * 2 ^ nat n < 2 ^ 31 \<Longrightarrow> shl a n = Some (a * 2 ^ nat n)"
  by (simp add: shl_def)

lemma int_range3: "0 \<le> (i::int) \<Longrightarrow> i < 3 \<Longrightarrow> i = 0 \<or> i = 1 \<or> i = 2"
  by arith

lemma int_range4: "0 \<le> (i::int) \<Longrightarrow> i \<le> 3 \<Longrightarrow> i = 0 \<or> i = 1 \<or> i = 2 \<or> i = 3"
  by arith

lemma int_range6:
  "0 \<le> (i::int) \<Longrightarrow> i < 6 \<Longrightarrow> i = 0 \<or> i = 1 \<or> i = 2 \<or> i = 3 \<or> i = 4 \<or> i = 5"
  by arith

subsection \<open>The button accessors, bit by bit\<close>

lemma special_bit:
  "length buffer = 22 \<Longrightarrow> 0 \<le> i \<Longrightarrow> i < 6 \<Longrightarrow>
   isSpecialButtonPressed buffer i = Some (bit (buffer ! 3) (nat (7 - i)))"
  using int_range6 [of i]
  by (auto simp add: isSpecialButtonPressed_def shl_small rd_def BUTTON_BYTE_SPECIAL_def
        and_pow_bit [symmetric] to_uchar_def)

lemma control_bit:
  "length buffer = 22 \<Longrightarrow> 0 \<le> k \<Longrightarrow> k < 3 \<Longrightarrow>
   isSpecialButtonPressed buffer (6 + k) = Some (bit (buffer ! 4) (nat (3 - k)))"
  using int_range3 [of k]
  by (auto simp add: isSpecialButtonPressed_def shl_small rd_def BUTTON_BYTE_STOP_AND_CONTROL_def
        and_pow_bit [symmetric] to_uchar_def)

lemma stop_bit:
  "length buffer = 22 \<Longrightarrow> 0 \<le> i \<Longrightarrow> i \<le> 3 \<Longrightarrow>
   isStopButtonPressed buffer i = Some (bit (buffer ! 4) (nat (7 - i)))"
  using int_range4 [of i]
  by (auto simp add: isStopButtonPressed_def shl_small rd_def BUTTON_BYTE_STOP_AND_CONTROL_def
        and_pow_bit [symmetric] to_uchar_def)

lemma control_enum_bit:
  "length buffer = 22 \<Longrightarrow>
   isControlButtonPressed (Some buffer) button =
     Some (bit (buffer ! 4) (case button of SYNC \<Rightarrow> 3 | QUANT \<Rightarrow> 2 | CAPTURE \<Rightarrow> 1))"
  by (cases button)
     (simp_all add: isControlButtonPressed_def rd_def BUTTON_BYTE_STOP_AND_CONTROL_def
        BIT_MASK_SYNC_def BIT_MASK_QUANT_def BIT_MASK_CAPTURE_def and_const_bit del: One_nat_def)

lemma matrix_bit:
  "length buffer = 22 \<Longrightarrow> 0 \<le> row \<Longrightarrow> row \<le> 3 \<Longrightarrow> 0 \<le> col \<Longrightarrow> col \<le> 3 \<Longrightarrow>
   isMatrixButtonPressed buffer row col =
     Some (bit (buffer ! (if row < 2 then 1 else 2))
               (nat ((if even row then 4 else 0) + (3 - col))))"
  using int_range4 [of row] int_range4 [of col]
  by (auto simp add: isMatrixButtonPressed_def shl_small rd_def signed_divide_int_def
        signed_modulo_int_def and_pow_bit [symmetric] to_uchar_def)

subsection \<open>C1: the addressing of the matrix bits\<close>

text \<open>
  C1, as the claim states it, puts rows 0 and 2 into the two nibbles of one matrix byte and
  rows 1 and 3 into the other byte. In a report whose first matrix byte has every bit set
  and whose second matrix byte is zero, two rows that share a byte would read the same.
  The code reads rows 0 and 1 as pressed and rows 2 and 3 as not pressed: rows 0 and 2 do
  not share a byte, rows 0 and 1 do.
\<close>

theorem isMatrixButtonPressed_row_pairs_counterexample:
  "isMatrixButtonPressed (button_frame 0xFF 0x00 0 0) 0 0 = Some True
   \<and> isMatrixButtonPressed (button_frame 0xFF 0x00 0 0) 1 0 = Some True
   \<and> isMatrixButtonPressed (button_frame 0xFF 0x00 0 0) 2 0 = Some False
   \<and> isMatrixButtonPressed (button_frame 0xFF 0x00 0 0) 3 0 = Some False"
  by (simp add: isMatrixButtonPressed_def shl_def rd_def button_frame_def
        signed_divide_int_def signed_modulo_int_def to_uchar_def)

text \<open>
  C1, amended: for every row and column in \<open>[0,3]\<close> of a 22-byte report,
  \<open>isMatrixButtonPressed\<close> tests one bit: rows 0 and 1 are the high and the low nibble of
  byte 1, rows 2 and 3 the high and the low nibble of byte 2, and within the nibble column
  0 is the most significant bit and column 3 the least significant.
\<close>

theorem isMatrixButtonPressed_layout:
  assumes "length buffer = 22" and "0 \<le> row" and "row \<le> 3" and "0 \<le> col" and "col \<le> 3"
  shows "isMatrixButtonPressed buffer row col =
           Some (bit (buffer ! (if row = 0 \<or> row = 1 then 1 else 2))
                     (if row = 0 \<or> row = 2 then 7 - nat col else 3 - nat col))"
proof -
  have "(if row < 2 then 1 else 2) = (if row = 0 \<or> row = 1 then 1 else (2::nat))"
    using assms(2) by auto
  moreover have "nat ((if even row then 4 else 0) + (3 - col)) =
      (if row = 0 \<or> row = 2 then 7 - nat col else 3 - nat col)"
    using int_range4 [OF assms(2,3)] assms(4,5) by auto
  ultimately show ?thesis
    using matrix_bit [OF assms] by simp
qed

theorem isMatrixButtonPressed_layout_witness:
  "length (button_frame 0x00 0x04 0 0) = 22
   \<and> isMatrixButtonPressed (button_frame 0x00 0x04 0 0) 3 1 = Some True
   \<and> isMatrixButtonPressed (button_frame 0x00 0x04 0 0) 1 1 = Some False"
  using isMatrixButtonPressed_layout [of "button_frame 0x00 0x04 0 0" 3 1]
    isMatrixButtonPressed_layout [of "button_frame 0x00 0x04 0 0" 1 1]
  by (simp add: length_button_frame nth_button_frame)

subsection \<open>C5: what the result of a read tells the caller\<close>

text \<open>
  C5, as the claim states it, has the result of \<open>readInputReport\<close> tell a frame with no
  bytes from a decode failure. The result is one boolean: it is \<open>False\<close> for a read that
  returned no bytes and \<open>False\<close> for a full report of 22 bytes with a wrong identifier.
\<close>

theorem readInputReport_no_data_vs_failure_counterexample:
  "map_option fst (readInputReport True True 0 (button_frame 0 0 0 0)) = Some False
   \<and> map_option fst (readInputReport True True 22 (0x02 # replicate 21 0)) = Some False"
  by (simp add: readInputReport_def rd_def button_frame_def INPUT_REPORT_ID_def)

text \<open>
  C5, amended: for a read that returned no bytes (a count of zero or less) and for a read
  that returned a full report of 22 bytes, the result of \<open>readInputReport\<close> is a single
  boolean, \<open>True\<close> exactly when both pointers are valid, the report is there and its first
  byte is the report identifier. No bytes from the transport and a wrong identifier both
  give \<open>False\<close>, and differ only in the error stream, where the wrong identifier leaves a
  message and the empty read leaves none. What a read of 1 to 21 bytes gives is not part
  of the statement.
\<close>

theorem readInputReport_result:
  assumes "bytes_read \<le> 0 \<or> bytes_read = INPUT_REPORT_SIZE"
  shows "readInputReport device_ok buffer_ok bytes_read (b0 # rest) =
     Some (device_ok \<and> buffer_ok \<and> bytes_read = INPUT_REPORT_SIZE \<and> b0 = INPUT_REPORT_ID,
           if \<not> device_ok then [DeviceIsNull]
           else if \<not> buffer_ok then [BufferIsNull]
           else if bytes_read = INPUT_REPORT_SIZE \<and> b0 \<noteq> INPUT_REPORT_ID then [WrongReportId b0]
           else [])"
  using assms by (auto simp add: readInputReport_def rd_def INPUT_REPORT_SIZE_def)

theorem readInputReport_result_witness:
  "readInputReport True True 0 (0x01 # replicate 21 0) = Some (False, [])
   \<and> readInputReport True True INPUT_REPORT_SIZE (0x02 # replicate 21 0)
       = Some (False, [WrongReportId 0x02])
   \<and> readInputReport True True INPUT_REPORT_SIZE (0x01 # replicate 21 0) = Some (True, [])"
  using readInputReport_result [of 0 True True "0x01" "replicate 21 0"]
    readInputReport_result [of INPUT_REPORT_SIZE True True "0x02" "replicate 21 0"]
    readInputReport_result [of INPUT_REPORT_SIZE True True "0x01" "replicate 21 0"]
  by (simp add: INPUT_REPORT_ID_def INPUT_REPORT_SIZE_def)

subsection \<open>C6: a wrong report identifier\<close>

text \<open>
  C6: for a buffer whose first byte is not the report identifier \<open>0x01\<close>,
  \<open>readInputReport\<close> fails whatever the remaining bytes are (and whatever the transport
  returned); when bytes were read into valid pointers, the failure is the one reported as
  a wrong report identifier.
\<close>

theorem readInputReport_wrong_id:
  assumes "b0 \<noteq> INPUT_REPORT_ID"
  shows "map_option fst (readInputReport device_ok buffer_ok bytes_read (b0 # rest)) = Some False
         \<and> (device_ok \<and> buffer_ok \<and> 0 < bytes_read \<longrightarrow>
              readInputReport device_ok buffer_ok bytes_read (b0 # rest)
                = Some (False, [WrongReportId b0]))"
  using assms by (auto simp add: readInputReport_def rd_def)

theorem readInputReport_wrong_id_witness:
  "(0x02 :: u8) \<noteq> INPUT_REPORT_ID
   \<and> readInputReport True True 22 (0x02 # replicate 21 0xFF) = Some (False, [WrongReportId 0x02])"
proof -
  have h: "(0x02 :: u8) \<noteq> INPUT_REPORT_ID"
    by (simp add: INPUT_REPORT_ID_def)
  show ?thesis
    using h readInputReport_wrong_id [OF h, of True True 22 "replicate 21 0xFF"] by simp
qed

subsection \<open>C7: the special, stop and control bits\<close>

text \<open>
  C7, as the claim states it, has the special and the control buttons share one byte and
  every group start at bit 7. In a report whose special byte (byte 3) has every bit set
  and whose byte 4 is \<open>0x80\<close>, a control button in the special byte, or at bit 7 of its own
  byte, would read as pressed. The code reads no control button as pressed, by index or
  by name, and reads stop button 0 as pressed.
\<close>

theorem control_buttons_byte_counterexample:
  "isSpecialButtonPressed (button_frame 0 0 0xFF 0x80) 6 = Some False
   \<and> isSpecialButtonPressed (button_frame 0 0 0xFF 0x80) 7 = Some False
   \<and> isSpecialButtonPressed (button_frame 0 0 0xFF 0x80) 8 = Some False
   \<and> isControlButtonPressed (Some (button_frame 0 0 0xFF 0x80)) SYNC = Some False
   \<and> isControlButtonPressed (Some (button_frame 0 0 0xFF 0x80)) QUANT = Some False
   \<and> isControlButtonPressed (Some (button_frame 0 0 0xFF 0x80)) CAPTURE = Some False
   \<and> isStopButtonPressed (button_frame 0 0 0xFF 0x80) 0 = Some True"
  by (simp add: isSpecialButtonPressed_def isControlButtonPressed_def isStopButtonPressed_def
        shl_def rd_def button_frame_def to_uchar_def BUTTON_BYTE_STOP_AND_CONTROL_def
        BIT_MASK_SYNC_def BIT_MASK_QUANT_def BIT_MASK_CAPTURE_def)

text \<open>
  C7, amended: each accessor reads one fixed byte of a 22-byte report and tests one bit.
  Special button \<open>i\<close> (0 to 5) is bit \<open>7 - i\<close> of byte 3; stop button \<open>s\<close> (0 to 3) is bit
  \<open>7 - s\<close> of byte 4; control button \<open>k\<close> (0 to 2: sync, quant, capture) is bit \<open>3 - k\<close> of
  byte 4. The stop and the control buttons share byte 4; the special buttons have byte 3
  to themselves. A report with byte 3 = \<open>0x80\<close> and bytes 1, 2 and 4 zero decodes special
  button 0 (shift) as pressed and every other button as not pressed.
\<close>

theorem button_bits_layout:
  assumes "length buffer = 22"
    and "0 \<le> i" and "i < 6" and "0 \<le> s" and "s \<le> 3" and "0 \<le> k" and "k < 3"
    and "0 \<le> row" and "row \<le> 3" and "0 \<le> col" and "col \<le> 3"
  shows "isSpecialButtonPressed buffer i = Some (bit (buffer ! 3) (7 - nat i))
         \<and> isStopButtonPressed buffer s = Some (bit (buffer ! 4) (7 - nat s))
         \<and> isSpecialButtonPressed buffer (6 + k) = Some (bit (buffer ! 4) (3 - nat k))
         \<and> isControlButtonPressed (Some buffer) SYNC = Some (bit (buffer ! 4) 3)
         \<and> isControlButtonPressed (Some buffer) QUANT = Some (bit (buffer ! 4) 2)
         \<and> isControlButtonPressed (Some buffer) CAPTURE = Some (bit (buffer ! 4) 1)
         \<and> isSpecialButtonPressed (button_frame 0 0 0x80 0) i = Some (i = 0)
         \<and> isStopButtonPressed (button_frame 0 0 0x80 0) s = Some False
         \<and> isSpecialButtonPressed (button_frame 0 0 0x80 0) (6 + k) = Some False
         \<and> isMatrixButtonPressed (button_frame 0 0 0x80 0) row col = Some False"
proof -
  let ?F = "button_frame 0 0 0x80 0"
  have n7: "nat (7 - i) = 7 - nat i" and n7s: "nat (7 - s) = 7 - nat s"
    and n3: "nat (3 - k) = 3 - nat k"
    using assms by auto
  have 1: "isSpecialButtonPressed buffer i = Some (bit (buffer ! 3) (7 - nat i))"
    using special_bit [OF assms(1,2,3)] n7 by simp
  have 2: "isStopButtonPressed buffer s = Some (bit (buffer ! 4) (7 - nat s))"
    using stop_bit [OF assms(1,4,5)] n7s by simp
  have 3: "isSpecialButtonPressed buffer (6 + k) = Some (bit (buffer ! 4) (3 - nat k))"
    using control_bit [OF assms(1,6,7)] n3 by simp
  have 4: "isControlButtonPressed (Some buffer) SYNC = Some (bit (buffer ! 4) 3)"
    "isControlButtonPressed (Some buffer) QUANT = Some (bit (buffer ! 4) 2)"
    "isControlButtonPressed (Some buffer) CAPTURE = Some (bit (buffer ! 4) 1)"
    using control_enum_bit [OF assms(1)] by simp_all
  have 5: "isSpecialButtonPressed ?F i = Some (i = 0)"
    using special_bit [OF length_button_frame assms(2,3), of 0 0 "0x80" 0] int_range6 [OF assms(2,3)]
    by (auto simp add: nth_button_frame)
  have 6: "isStopButtonPressed ?F s = Some False"
    using stop_bit [OF length_button_frame assms(4,5), of 0 0 "0x80" 0]
    by (simp add: nth_button_frame)
  have 7: "isSpecialButtonPressed ?F (6 + k) = Some False"
    using control_bit [OF length_button_frame assms(6,7), of 0 0 "0x80" 0]
    by (simp add: nth_button_frame)
  have 8: "isMatrixButtonPressed ?F row col = Some False"
    using matrix_bit [OF length_button_frame assms(8,9,10,11), of 0 0 "0x80" 0]
    by (simp add: nth_button_frame)
  show ?thesis
    using 1 2 3 4 5 6 7 8 by simp
qed

theorem button_bits_layout_witness:
  "length (button_frame 0 0 0x04 0x18) = 22
   \<and> isSpecialButtonPressed (button_frame 0 0 0x04 0x18) 5 = Some True
   \<and> isStopButtonPressed (button_frame 0 0 0x04 0x18) 3 = Some True
   \<and> isSpecialButtonPressed (button_frame 0 0 0x04 0x18) 6 = Some True
   \<and> isControlButtonPressed (Some (button_frame 0 0 0x04 0x18)) QUANT = Some False
   \<and> isSpecialButtonPressed (button_frame 0 0 0x80 0) 5 = Some False"
  using button_bits_layout [of "button_frame 0 0 0x04 0x18" 5 3 0 0 0]
  by (simp add: length_button_frame nth_button_frame)

subsection \<open>C8: the normalizers\<close>

lemma c_trunc_mono: "x \<le> y \<Longrightarrow> c_trunc x \<le> c_trunc y"
  unfolding c_trunc_def
  by (auto intro: floor_mono ceiling_mono) (smt (verit) ceiling_le_zero zero_le_floor)

lemma c_trunc_of_int [simp]: "c_trunc (of_int k) = k"
  by (simp add: c_trunc_def)

lemma scale_mono:
  assumes "mono rnd" and "(a::nat) \<le> b"
  shows "real_of_int (c_trunc (rnd (rnd (real a / real m) * 127)))
       \<le> real_of_int (c_trunc (rnd (rnd (real b / real m) * 127)))"
proof -
  have "real a / real m \<le> real b / real m"
    using assms(2) by (simp add: divide_right_mono)
  then have "rnd (real a / real m) \<le> rnd (real b / real m)"
    by (rule monoD [OF assms(1)])
  then have "rnd (real a / real m) * 127 \<le> rnd (real b / real m) * 127"
    by simp
  then have "rnd (rnd (real a / real m) * 127) \<le> rnd (rnd (real b / real m) * 127)"
    by (rule monoD [OF assms(1)])
  then show ?thesis
    by (simp add: c_trunc_mono)
qed

text \<open>With exact arithmetic the normalizer is the integer quotient \<open>v * 127 div 4095\<close>.\<close>

lemma scale_exact: "c_trunc (real n / 4095 * 127) = int n * 127 div 4095"
proof -
  have "real n / 4095 * 127 = real_of_int (int n * 127) / real_of_int 4095"
    by simp
  then have "\<lfloor>real n / 4095 * 127\<rfloor> = int n * 127 div 4095"
    by (simp only: floor_divide_of_int_eq)
  moreover have "0 \<le> real n / 4095 * 127"
    by simp
  ultimately show ?thesis
    by (simp add: c_trunc_def)
qed

lemma FaderInputReader_rawToNormalized_exact:
  "FaderInputReader_rawToNormalized (\<lambda>x. x) v = real_of_int (int (unat v) * 127 div 4095)"
  using scale_exact [of "unat v"]
  by (simp add: FaderInputReader_rawToNormalized_def FADER_RAW_MAX_def)

text \<open>
  C8: for every rounding of the \<open>float\<close> operations that is monotone and exact on 0, 1 and
  127 (as rounding to nearest is), the normalizer of the faders and the normalizer of the
  knobs are monotone non-decreasing in the raw value, send 0 to 0 and send 4095 to 127.
  Monotonicity holds for all 16-bit arguments, the 12-bit ones among them.
\<close>

theorem rawToNormalized_monotone:
  assumes "mono rnd" and "rnd 0 = 0" and "rnd 1 = 1" and "rnd 127 = 127" and "v \<le> w"
  shows "FaderInputReader_rawToNormalized rnd v \<le> FaderInputReader_rawToNormalized rnd w
       \<and> FaderInputReader_rawToNormalized rnd 0 = 0
       \<and> FaderInputReader_rawToNormalized rnd 4095 = 127
       \<and> KnobInputReader_rawToNormalized rnd v \<le> KnobInputReader_rawToNormalized rnd w
       \<and> KnobInputReader_rawToNormalized rnd 0 = 0
       \<and> KnobInputReader_rawToNormalized rnd 4095 = 127"
proof -
  have le: "unat v \<le> unat w"
    using assms(5) by (simp add: word_le_nat_alt)
  have t127: "c_trunc 127 = 127"
    using c_trunc_of_int [of 127] by simp
  have t0: "c_trunc 0 = 0"
    by (simp add: c_trunc_def)
  show ?thesis
    using scale_mono [OF assms(1) le, of 4095] assms(2,3,4) t127 t0
    by (simp add: FaderInputReader_rawToNormalized_def KnobInputReader_rawToNormalized_def
          FADER_RAW_MAX_def KNOB_RAW_MAX_def)
qed

theorem rawToNormalized_monotone_witness:
  "mono (\<lambda>x::real. x)
   \<and> FaderInputReader_rawToNormalized (\<lambda>x. x) 1000 \<le> FaderInputReader_rawToNormalized (\<lambda>x. x) 3000
   \<and> KnobInputReader_rawToNormalized (\<lambda>x. x) 1000 \<le> KnobInputReader_rawToNormalized (\<lambda>x. x) 3000
   \<and> FaderInputReader_rawToNormalized (\<lambda>x. x) 4095 = 127
   \<and> KnobInputReader_rawToNormalized (\<lambda>x. x) 4095 = 127"
  using rawToNormalized_monotone [of "\<lambda>x. x" 1000 3000]
  by (simp add: mono_def)

subsection \<open>C9: an LED setter writes its own bytes only\<close>

lemma setStopButtonLED_buffer:
  assumes "length (led_buffer g) = 81" and "length (stop_states g) = 4"
    and "0 \<le> index" and "index \<le> 3"
  shows "\<exists>g'. setStopButtonLED rnd index bright store g = Some g'
           \<and> led_buffer g' =
               (led_buffer g)[nat (79 - 2 * index) := convertTo7Bit rnd 255 (max 0 (min 1 bright)),
                              nat (80 - 2 * index) := convertTo7Bit rnd 255 (max 0 (min 1 bright))]"
proof -
  have c: "(if (if bright < 0 then 0 else bright) > 1 then 1 else (if bright < 0 then 0 else bright))
            = max 0 (min 1 bright)"
    by auto
  have r: "LED_BYTE_STOP_START + (7 - index * 2) - 1 = 79 - 2 * index"
    and l: "LED_BYTE_STOP_START + (7 - index * 2) = 80 - 2 * index"
    by (simp_all add: LED_BYTE_STOP_START_def)
  show ?thesis
    using assms
    by (cases store) (simp_all add: setStopButtonLED_def Let_def wr_def c r l)
qed

lemma setMatrixButtonLED_BRG_buffer:
  assumes "length (led_buffer g) = 81"
    and "0 \<le> row" and "row \<le> 3" and "0 \<le> col" and "col \<le> 3"
  shows "\<exists>g'. setMatrixButtonLED_BRG row col brg store g = Some g'
           \<and> led_buffer g' =
               (led_buffer g)[nat (25 + 3 * (4 * row + col)) := c_blue brg,
                              nat (26 + 3 * (4 * row + col)) := c_red brg,
                              nat (27 + 3 * (4 * row + col)) := c_green brg]
           \<and> matrix_states g' = matrix_states g"
proof -
  have b: "LED_BYTE_MATRIX_START + (row * MATRIX_COLS + col) * MATRIX_LEDS_PER_BUTTON
            = 25 + 3 * (4 * row + col)"
    by (simp add: LED_BYTE_MATRIX_START_def MATRIX_COLS_def MATRIX_LEDS_PER_BUTTON_def)
  show ?thesis
    using assms
    by (simp add: setMatrixButtonLED_BRG_def Let_def wr_def b)
qed

lemma led_globals_after_init_facts:
  "length (led_buffer led_globals_after_init) = 81"
  "length (stop_states led_globals_after_init) = 4"
  "led_buffer led_globals_after_init ! 0 = LED_REPORT_ID"
  by (simp_all add: led_globals_after_init_def)

text \<open>
  C9: on an 81-byte output buffer, for a stop button index in \<open>[0,3]\<close>, a matrix row and
  column in \<open>[0,3]\<close> and any brightness, \<open>setStopButtonLED\<close> succeeds, writes the two bytes
  \<open>79 - 2 * index\<close> and \<open>80 - 2 * index\<close> (inside the stop region 73 to 80) and leaves every
  other byte as it was; \<open>setMatrixButtonLED\<close> succeeds, writes the three bytes from
  \<open>25 + 3 * (4 * row + col)\<close> on (inside the matrix region 25 to 72) and leaves every other
  byte as it was. The report identifier at byte 0 is among the bytes left alone.
\<close>

theorem led_setters_frame:
  assumes "length (led_buffer g) = 81" and "length (stop_states g) = 4"
    and "0 \<le> index" and "index \<le> 3"
    and "0 \<le> row" and "row \<le> 3" and "0 \<le> col" and "col \<le> 3"
  shows "(\<exists>g'. setStopButtonLED rnd index bright store g = Some g'
            \<and> length (led_buffer g') = 81
            \<and> led_buffer g' ! nat (79 - 2 * index) = convertTo7Bit rnd 255 (max 0 (min 1 bright))
            \<and> led_buffer g' ! nat (80 - 2 * index) = convertTo7Bit rnd 255 (max 0 (min 1 bright))
            \<and> (\<forall>j. j \<noteq> nat (79 - 2 * index) \<and> j \<noteq> nat (80 - 2 * index)
                  \<longrightarrow> led_buffer g' ! j = led_buffer g ! j))
       \<and> (\<exists>g'. setMatrixButtonLED rnd row col clr bright store g = Some g'
            \<and> length (led_buffer g') = 81
            \<and> led_buffer g' ! nat (25 + 3 * (4 * row + col)) = c_blue (getColorWithBrightness rnd clr bright)
            \<and> led_buffer g' ! nat (26 + 3 * (4 * row + col)) = c_red (getColorWithBrightness rnd clr bright)
            \<and> led_buffer g' ! nat (27 + 3 * (4 * row + col)) = c_green (getColorWithBrightness rnd clr bright)
            \<and> (\<forall>j. j \<noteq> nat (25 + 3 * (4 * row + col)) \<and> j \<noteq> nat (26 + 3 * (4 * row + col))
                    \<and> j \<noteq> nat (27 + 3 * (4 * row + col))
                  \<longrightarrow> led_buffer g' ! j = led_buffer g ! j))
       \<and> 73 \<le> 79 - 2 * index \<and> 80 - 2 * index \<le> 80
       \<and> 25 \<le> 25 + 3 * (4 * row + col) \<and> 27 + 3 * (4 * row + col) \<le> 72"
proof (intro conjI)
  obtain g' where g': "setStopButtonLED rnd index bright store g = Some g'"
    "led_buffer g' =
       (led_buffer g)[nat (79 - 2 * index) := convertTo7Bit rnd 255 (max 0 (min 1 bright)),
                      nat (80 - 2 * index) := convertTo7Bit rnd 255 (max 0 (min 1 bright))]"
    using setStopButtonLED_buffer [OF assms(1,2,3,4)] by blast
  have "nat (79 - 2 * index) < 81" "nat (80 - 2 * index) < 81"
    "nat (79 - 2 * index) \<noteq> nat (80 - 2 * index)"
    using assms(3,4) by auto
  then show "\<exists>g'. setStopButtonLED rnd index bright store g = Some g'
            \<and> length (led_buffer g') = 81
            \<and> led_buffer g' ! nat (79 - 2 * index) = convertTo7Bit rnd 255 (max 0 (min 1 bright))
            \<and> led_buffer g' ! nat (80 - 2 * index) = convertTo7Bit rnd 255 (max 0 (min 1 bright))
            \<and> (\<forall>j. j \<noteq> nat (79 - 2 * index) \<and> j \<noteq> nat (80 - 2 * index)
                  \<longrightarrow> led_buffer g' ! j = led_buffer g ! j)"
    using g' assms(1) by (simp add: nth_list_update)
next
  let ?brg = "getColorWithBrightness rnd clr bright"
  obtain g' where g': "setMatrixButtonLED_BRG row col ?brg store g = Some g'"
    "led_buffer g' =
       (led_buffer g)[nat (25 + 3 * (4 * row + col)) := c_blue ?brg,
                      nat (26 + 3 * (4 * row + col)) := c_red ?brg,
                      nat (27 + 3 * (4 * row + col)) := c_green ?brg]"
    using setMatrixButtonLED_BRG_buffer [OF assms(1,5,6,7,8)] by blast
  have "nat (25 + 3 * (4 * row + col)) < 81" "nat (26 + 3 * (4 * row + col)) < 81"
    "nat (27 + 3 * (4 * row + col)) < 81"
    "nat (25 + 3 * (4 * row + col)) \<noteq> nat (26 + 3 * (4 * row + col))"
    "nat (25 + 3 * (4 * row + col)) \<noteq> nat (27 + 3 * (4 * row + col))"
    "nat (26 + 3 * (4 * row + col)) \<noteq> nat (27 + 3 * (4 * row + col))"
    using assms(5,6,7,8) by auto
  then show "\<exists>g'. setMatrixButtonLED rnd row col clr bright store g = Some g'
            \<and> length (led_buffer g') = 81
            \<and> led_buffer g' ! nat (25 + 3 * (4 * row + col)) = c_blue ?brg
            \<and> led_buffer g' ! nat (26 + 3 * (4 * row + col)) = c_red ?brg
            \<and> led_buffer g' ! nat (27 + 3 * (4 * row + col)) = c_green ?brg
            \<and> (\<forall>j. j \<noteq> nat (25 + 3 * (4 * row + col)) \<and> j \<noteq> nat (26 + 3 * (4 * row + col))
                    \<and> j \<noteq> nat (27 + 3 * (4 * row + col))
                  \<longrightarrow> led_buffer g' ! j = led_buffer g ! j)"
    using g' assms(1) by (simp add: setMatrixButtonLED_def nth_list_update)
qed (use assms in auto)

theorem led_setters_frame_witness:
  "(\<exists>g'. setStopButtonLED (\<lambda>x. x) 2 1 True led_globals_after_init = Some g'
      \<and> led_buffer g' ! 0 = LED_REPORT_ID
      \<and> led_buffer g' ! 75 = convertTo7Bit (\<lambda>x. x) 255 1)
   \<and> (\<exists>g'. setMatrixButtonLED (\<lambda>x. x) 0 0 red 1 True led_globals_after_init = Some g'
      \<and> led_buffer g' ! 0 = LED_REPORT_ID)"
  using led_setters_frame [of led_globals_after_init 2 0 0 "\<lambda>x. x" 1 True red]
  by (auto simp add: led_globals_after_init_facts)

subsection \<open>C10: the index of a button in the state storage\<close>

text \<open>
  C10 says the index \<open>(int)button\<close> lies inside the five entries of \<open>special_states\<close> for
  every button. For \<open>LEDButton::SHIFT\<close>, which the startup sequence passes with state
  recording on, the index is 7 and the array has five entries: the store is outside the
  array, and the call has no defined result.
\<close>

theorem setButtonLED_shift_outside_special_states:
  "LEDButton_to_int LED_SHIFT = 7
   \<and> length (special_states led_globals_after_init) = 5
   \<and> setButtonLED (\<lambda>x. x) LED_SHIFT 0 True led_globals_after_init = None"
  by (simp add: setButtonLED_def led_globals_after_init_def wr_def)

subsection \<open>C4: the matrix LED bytes and the state storage\<close>

lemma convertTo7Bit_full:
  "convertTo7Bit (\<lambda>x. x) 255 1 = 127" "convertTo7Bit (\<lambda>x. x) 0 1 = 0"
  by (simp_all add: convertTo7Bit_def c_trunc_def to_uchar_def)

text \<open>\<open>setMatrixButtonLED\<close> never touches \<open>matrix_states\<close>, whatever the flag says.\<close>

lemma setMatrixButtonLED_keeps_matrix_states:
  assumes "setMatrixButtonLED rnd row col clr bright store g = Some g'"
  shows "matrix_states g' = matrix_states g"
  using assms
  by (auto simp add: setMatrixButtonLED_def setMatrixButtonLED_BRG_def Let_def wr_def
        split: if_splits Option.bind_splits)

text \<open>
  C4 says that after \<open>setMatrixLED(r,c,color,1.0)\<close> with state recording on, the three
  bytes of the cell hold the colour in (blue, red, green) order and the state storage
  returns \<open>(color, 1.0)\<close>. After the initialisation and \<open>setMatrixButtonLED(1, 1, red, 1.0,
  true)\<close> the three bytes from offset 40 are \<open>(0, 127, 0)\<close>, as the claim says, and
  \<open>getMatrixButtonState(1, 1)\<close> returns \<open>(black, 0.0)\<close>: the setter ignores
  \<open>store_led_state\<close> and nothing is recorded.
\<close>

theorem setMatrixButtonLED_records_nothing:
  "map_option (\<lambda>g. take 3 (drop 40 (led_buffer g)))
     (setMatrixButtonLED (\<lambda>x. x) 1 1 red 1 True led_globals_after_init) = Some [0, 127, 0]
   \<and> Option.bind (setMatrixButtonLED (\<lambda>x. x) 1 1 red 1 True led_globals_after_init)
       (\<lambda>g. getMatrixButtonState g 1 1) = Some \<lparr>color = black, brightness = 0\<rparr>"
  by (simp add: setMatrixButtonLED_def setMatrixButtonLED_BRG_def led_globals_after_init_def wr_def
        getMatrixButtonState_def isValidMatrixPosition_def rd_def MATRIX_COLS_def MATRIX_ROWS_def
        LED_BYTE_MATRIX_START_def MATRIX_LEDS_PER_BUTTON_def convertTo7Bit_full numeral_nat)

subsection \<open>C2: edges of the buttons\<close>

text \<open>
  The special and control buttons are edge-triggered: one iteration of the first loop of
  \<open>updateButtons\<close> emits a press when the button is down and was up, a release when it is
  up and was down, nothing otherwise, and stores the decoded state.
\<close>

lemma special_iteration_edge:
  assumes "length specialPressed = 9" and "0 \<le> i" and "i \<le> 8"
    and "isSpecialButtonPressed input_buffer i = Some pressed"
  shows "special_iteration input_buffer i specialPressed =
           Some (if pressed \<and> \<not> specialPressed ! nat i then [ButtonPress (4 + i)]
                 else if \<not> pressed \<and> specialPressed ! nat i then [ButtonRelease (4 + i)]
                 else [],
                 specialPressed[nat i := pressed])"
proof -
  have same: "specialPressed ! nat i = pressed \<Longrightarrow> specialPressed[nat i := pressed] = specialPressed"
    using list_update_id [of specialPressed "nat i"] by simp
  show ?thesis
    using assms same
    by (cases pressed; cases "specialPressed ! nat i")
       (simp_all add: special_iteration_def rd_def wr_def)
qed

text \<open>
  C2 says a button held across frames never emits a second \<open>Pressed\<close> and that a press
  followed by a release emits \<open>Pressed\<close> then \<open>Released\<close>, for the stop buttons too. With
  stop button 0 down in two frames and up in the third, \<open>updateButtons\<close> emits a press in
  each of the first two frames and nothing in the third; with the shift button in its
  place it emits one press, nothing, then one release.
\<close>

theorem updateButtons_stop_button_held:
  "do { (e1, s1) \<leftarrow> updateButtons (button_frame 0 0 0 0x80) (replicate 9 False);
        (e2, s2) \<leftarrow> updateButtons (button_frame 0 0 0 0x80) s1;
        (e3, s3) \<leftarrow> updateButtons (button_frame 0 0 0 0x00) s2;
        Some [e1, e2, e3] } = Some [[ButtonPress 0], [ButtonPress 0], []]
   \<and> do { (e1, s1) \<leftarrow> updateButtons (button_frame 0 0 0x80 0) (replicate 9 False);
        (e2, s2) \<leftarrow> updateButtons (button_frame 0 0 0x80 0) s1;
        (e3, s3) \<leftarrow> updateButtons (button_frame 0 0 0x00 0) s2;
        Some [e1, e2, e3] } = Some [[ButtonPress 4], [], [ButtonRelease 4]]"
  by code_simp

subsection \<open>C3: the coalescing of fader changes\<close>

lemma elapsed_ms_self [simp]: "elapsed_ms now now = 0"
  by (simp add: elapsed_ms_def)

lemma getFaderValue_defined:
  assumes "length buffer = 22" and "0 \<le> f" and "f \<le> 3"
  shows "\<exists>v. FaderInputReader_getFaderValue rnd buffer f = Some v"
  using assms
  by (simp add: FaderInputReader_getFaderValue_def FaderInputReader_extractRawFaderValue_def
        rd_def Let_def FADER_BYTE_START_def FADER_BYTES_PER_FADER_def)

lemma fader_iteration_step:
  assumes "wf_analog st" and "0 \<le> g" and "g \<le> 3"
    and "FaderInputReader_getFaderValue rnd buf g = Some v"
  shows "\<exists>ev st'. fader_iteration rnd buf now g st = Some (ev, st')
          \<and> wf_analog st'
          \<and> (ev, fader_channel st' g) = fader_channel_step g (c_trunc v) now (fader_channel st g)
          \<and> (\<forall>h. 0 \<le> h \<and> h \<noteq> g \<longrightarrow> fader_channel st' h = fader_channel st h \<and> events_of_fader h ev = [])
          \<and> events_of_fader g ev = ev"
  using assms
  by (auto simp add: fader_iteration_def wf_analog_def fader_channel_def rd_def wr_def Let_def
        events_of_fader_def nat_eq_iff)


lemma fader_loop_channel:
  assumes "wf_analog st" and "length buf = 22" and "\<forall>g \<in> set gs. 0 \<le> g \<and> g \<le> 3"
    and "distinct gs" and "0 \<le> f"
  shows "\<exists>evs st'. fader_loop rnd buf clock gs st = Some (evs, st') \<and> wf_analog st'
          \<and> (f \<notin> set gs \<longrightarrow> fader_channel st' f = fader_channel st f \<and> events_of_fader f evs = [])
          \<and> (f \<in> set gs \<longrightarrow> (\<exists>v. FaderInputReader_getFaderValue rnd buf f = Some v
                \<and> (events_of_fader f evs, fader_channel st' f)
                    = fader_channel_step f (c_trunc v) (clock f) (fader_channel st f)))"
  using assms
proof (induction gs arbitrary: st)
  case Nil
  then show ?case by (simp add: events_of_fader_def)
next
  case (Cons g gs)
  have g: "0 \<le> g" "g \<le> 3" and gs: "\<forall>g \<in> set gs. 0 \<le> g \<and> g \<le> 3"
    and d: "distinct gs" "g \<notin> set gs"
    using Cons.prems by auto
  obtain v where v: "FaderInputReader_getFaderValue rnd buf g = Some v"
    using getFaderValue_defined [OF Cons.prems(2) g] by blast
  obtain ev st1 where it: "fader_iteration rnd buf (clock g) g st = Some (ev, st1)"
    and wf1: "wf_analog st1"
    and own: "(ev, fader_channel st1 g) = fader_channel_step g (c_trunc v) (clock g) (fader_channel st g)"
    and other: "\<forall>h. 0 \<le> h \<and> h \<noteq> g \<longrightarrow> fader_channel st1 h = fader_channel st h \<and> events_of_fader h ev = []"
    and mine: "events_of_fader g ev = ev"
    using fader_iteration_step [OF Cons.prems(1) g v, of "clock g"] by blast
  obtain evs st2 where lp: "fader_loop rnd buf clock gs st1 = Some (evs, st2)"
    and wf2: "wf_analog st2"
    and out: "f \<notin> set gs \<longrightarrow> fader_channel st2 f = fader_channel st1 f \<and> events_of_fader f evs = []"
    and inn: "f \<in> set gs \<longrightarrow> (\<exists>v. FaderInputReader_getFaderValue rnd buf f = Some v
                \<and> (events_of_fader f evs, fader_channel st2 f)
                    = fader_channel_step f (c_trunc v) (clock f) (fader_channel st1 f))"
    using Cons.IH [OF wf1 Cons.prems(2) gs d(1) Cons.prems(5)] by blast
  have res: "fader_loop rnd buf clock (g # gs) st = Some (ev @ evs, st2)"
    using it lp by simp
  have app: "events_of_fader f (ev @ evs) = events_of_fader f ev @ events_of_fader f evs"
    by (simp add: events_of_fader_def)
  show ?case
  proof (cases "f = g")
    case True
    then have "f \<notin> set gs" using d(2) by simp
    then have "fader_channel st2 f = fader_channel st1 f" "events_of_fader f evs = []"
      using out by simp_all
    then have "(events_of_fader f (ev @ evs), fader_channel st2 f)
        = fader_channel_step f (c_trunc v) (clock f) (fader_channel st f)"
      using own mine True app by simp
    then show ?thesis
      using res wf2 v True by auto
  next
    case False
    then have o: "fader_channel st1 f = fader_channel st f" "events_of_fader f ev = []"
      using other Cons.prems(5) by simp_all
    show ?thesis
      using res wf2 out inn o app False by auto
  qed
qed

lemma updateFaderStates_channel:
  assumes "wf_analog st" and "length buf = 22" and "0 \<le> f" and "f \<le> 3"
  shows "\<exists>evs st' v. updateFaderStates rnd buf clock st = Some (evs, st') \<and> wf_analog st'
          \<and> FaderInputReader_getFaderValue rnd buf f = Some v
          \<and> (events_of_fader f evs, fader_channel st' f)
              = fader_channel_step f (c_trunc v) (clock f) (fader_channel st f)"
proof -
  have "f \<in> set [0, 1, 2, 3]"
    using int_range4 [OF assms(3,4)] by auto
  then show ?thesis
    using fader_loop_channel [OF assms(1,2) _ _ assms(3), of "[0, 1, 2, 3]" rnd clock]
    by (auto simp add: updateFaderStates_def)
qed

lemma frames_append:
  "updateFaderStates_frames rnd (xs @ ys) st = do {
     (e1, s1) \<leftarrow> updateFaderStates_frames rnd xs st;
     (e2, s2) \<leftarrow> updateFaderStates_frames rnd ys s1;
     Some (e1 @ e2, s2)
   }"
proof (induction xs arbitrary: st)
  case Nil
  then show ?case by (simp split: Option.bind_split)
next
  case (Cons x xs)
  then show ?case
    by (cases x) (simp split: Option.bind_split prod.splits)
qed

lemma frames_within_window:
  assumes "wf_analog st" and "0 \<le> f" and "f \<le> 3"
    and "is_fader_value_dirty st ! nat f" and "last_slider_change st ! nat f = t0"
    and "\<forall>(b, c) \<in> set mid. length b = 22 \<and> elapsed_ms (c f) t0 \<le> 50"
  shows "\<exists>evs st'. updateFaderStates_frames rnd mid st = Some (evs, st') \<and> wf_analog st'
          \<and> is_fader_value_dirty st' ! nat f \<and> last_slider_change st' ! nat f = t0
          \<and> length evs = length mid \<and> (\<forall>e \<in> set evs. events_of_fader f e = [])"
  using assms
proof (induction mid arbitrary: st)
  case Nil
  then show ?case by simp
next
  case (Cons x mid)
  obtain b c where x: "x = (b, c)" by (cases x)
  have b: "length b = 22" and w: "elapsed_ms (c f) t0 \<le> 50"
    and rest: "\<forall>(b, c) \<in> set mid. length b = 22 \<and> elapsed_ms (c f) t0 \<le> 50"
    using Cons.prems(6) x by auto
  obtain ev st1 v where up: "updateFaderStates rnd b c st = Some (ev, st1)" and wf1: "wf_analog st1"
    and st: "(events_of_fader f ev, fader_channel st1 f)
              = fader_channel_step f (c_trunc v) (c f) (fader_channel st f)"
    using updateFaderStates_channel [OF Cons.prems(1) b Cons.prems(2,3), of rnd c] by blast
  have ch: "events_of_fader f ev = []" "is_fader_value_dirty st1 ! nat f"
    "last_slider_change st1 ! nat f = t0"
    using st w Cons.prems(4,5) by (simp_all add: fader_channel_def)
  obtain evs st2 where fr: "updateFaderStates_frames rnd mid st1 = Some (evs, st2)"
    and r: "wf_analog st2" "is_fader_value_dirty st2 ! nat f" "last_slider_change st2 ! nat f = t0"
      "length evs = length mid" "\<forall>e \<in> set evs. events_of_fader f e = []"
    using Cons.IH [OF wf1 Cons.prems(2,3) ch(2,3) rest] by blast
  show ?case
    using up fr r ch(1) x by simp
qed


lemma c_trunc_numeral [simp]: "c_trunc (numeral n) = numeral n" "c_trunc 0 = 0"
  by (simp_all add: c_trunc_def)

lemma analog_state_idle_facts:
  "wf_analog analog_state_idle"
  "\<not> is_fader_value_dirty analog_state_idle ! 0"
  "previous_fader_values analog_state_idle ! 0 = 0"
  by (simp_all add: wf_analog_def analog_state_idle_def)

lemma length_fader_frame: "length (fader_frame lsb msb) = 22"
  by (simp add: fader_frame_def)

lemma getFaderValue_fader_frame:
  "FaderInputReader_getFaderValue (\<lambda>x. x) (fader_frame 0x00 0x08) 0 = Some 63"
  "FaderInputReader_getFaderValue (\<lambda>x. x) (fader_frame 0xFF 0x0F) 0 = Some 127"
  by (simp_all add: FaderInputReader_getFaderValue_def FaderInputReader_extractRawFaderValue_def
        FaderInputReader_clampRawValue_def FaderInputReader_rawToNormalized_exact
        rd_def Let_def fader_frame_def FADER_BYTE_START_def FADER_BYTES_PER_FADER_def
        FADER_12BIT_MASK_def FADER_RAW_MIN_def FADER_RAW_MAX_def nth_append)

lemma getFaderValue_fader_frame_rest:
  "FaderInputReader_getFaderValue (\<lambda>x. x) (fader_frame lsb msb) 1 = Some 0"
  "FaderInputReader_getFaderValue (\<lambda>x. x) (fader_frame lsb msb) 2 = Some 0"
  "FaderInputReader_getFaderValue (\<lambda>x. x) (fader_frame lsb msb) 3 = Some 0"
  by (simp_all add: FaderInputReader_getFaderValue_def FaderInputReader_extractRawFaderValue_def
        FaderInputReader_clampRawValue_def FaderInputReader_rawToNormalized_exact
        rd_def Let_def fader_frame_def FADER_BYTE_START_def FADER_BYTES_PER_FADER_def
        FADER_12BIT_MASK_def FADER_RAW_MIN_def FADER_RAW_MAX_def nth_append)

text \<open>
  C3, as the claim states it, emits no event until 50 ms have passed since the value most
  recently changed. Fader 0 rests at 0 and is clean; three frames follow, at 0 ms with
  value 63, at 40 ms with value 127 and at 51 ms with value 63 again. The value changes in
  every frame, the last time in the third frame itself, and the third frame emits the
  event: the window runs from the first change, not from the most recent one. The event
  carries 126, twice the value.
\<close>

theorem updateFaderStates_window_counterexample: "map_option fst (updateFaderStates_frames (\<lambda>x. x)
     [(fader_frame 0x00 0x08, \<lambda>_. 0),
      (fader_frame 0xFF 0x0F, \<lambda>_. 40000000),
      (fader_frame 0x00 0x08, \<lambda>_. 51000000)] analog_state_idle)
   = Some [[], [], [SliderChanged 0 126]]"
  by (simp add: updateFaderStates_def fader_iteration_def analog_state_idle_def
        getFaderValue_fader_frame getFaderValue_fader_frame_rest rd_def wr_def Let_def
        elapsed_ms_def signed_divide_int_def)

text \<open>
  C3, amended: for every fader, a frame whose truncated value differs from the stored
  previous value while the fader is clean marks it dirty and records the time of that
  frame, and emits nothing. Whatever the values of the frames that follow, no event of
  the fader is emitted in a frame whose clock reading is at most 50 whole milliseconds
  after the recorded time; the first frame more than 50 whole milliseconds after it emits
  exactly one event of the fader, carrying twice the truncated value of that frame, and
  clears the dirty flag.
\<close>

theorem fader_coalescing:
  assumes "wf_analog st" and "0 \<le> f" and "f \<le> 3"
    and "length b0 = 22" and "length bn = 22"
    and "\<not> is_fader_value_dirty st ! nat f"
    and "FaderInputReader_getFaderValue rnd b0 f = Some v0"
    and "c_trunc v0 \<noteq> previous_fader_values st ! nat f"
    and "\<forall>(b, c) \<in> set mid. length b = 22 \<and> elapsed_ms (c f) (c0 f) \<le> 50"
    and "elapsed_ms (cn f) (c0 f) > 50"
  shows "\<exists>e0 s0 evs st' vn.
           updateFaderStates rnd b0 c0 st = Some (e0, s0)
         \<and> events_of_fader f e0 = []
         \<and> is_fader_value_dirty s0 ! nat f
         \<and> last_slider_change s0 ! nat f = c0 f
         \<and> updateFaderStates_frames rnd ((b0, c0) # mid @ [(bn, cn)]) st = Some (evs, st')
         \<and> length evs = length mid + 2
         \<and> (\<forall>i. i \<le> length mid \<longrightarrow> events_of_fader f (evs ! i) = [])
         \<and> FaderInputReader_getFaderValue rnd bn f = Some vn
         \<and> events_of_fader f (evs ! (length mid + 1)) = [SliderChanged f (c_trunc vn * 2)]
         \<and> \<not> is_fader_value_dirty st' ! nat f
         \<and> previous_fader_values st' ! nat f = c_trunc vn"
proof -
  obtain e0 s0 v where up0: "updateFaderStates rnd b0 c0 st = Some (e0, s0)" and wf0: "wf_analog s0"
    and v: "FaderInputReader_getFaderValue rnd b0 f = Some v"
    and st0: "(events_of_fader f e0, fader_channel s0 f)
              = fader_channel_step f (c_trunc v) (c0 f) (fader_channel st f)"
    using updateFaderStates_channel [OF assms(1,4,2,3), of rnd c0] by blast
  have vv: "v = v0" using v assms(7) by simp
  have first: "events_of_fader f e0 = []" "is_fader_value_dirty s0 ! nat f"
    "last_slider_change s0 ! nat f = c0 f"
    using st0 vv assms(6,8) by (simp_all add: fader_channel_def)
  obtain em s1 where mid: "updateFaderStates_frames rnd mid s0 = Some (em, s1)"
    and wf1: "wf_analog s1" and d1: "is_fader_value_dirty s1 ! nat f"
    and l1: "last_slider_change s1 ! nat f = c0 f"
    and lem: "length em = length mid" and nom: "\<forall>e \<in> set em. events_of_fader f e = []"
    using frames_within_window [OF wf0 assms(2,3) first(2,3) assms(9), of rnd] by blast
  obtain en s2 vn where upn: "updateFaderStates rnd bn cn s1 = Some (en, s2)"
    and vn: "FaderInputReader_getFaderValue rnd bn f = Some vn"
    and stn: "(events_of_fader f en, fader_channel s2 f)
              = fader_channel_step f (c_trunc vn) (cn f) (fader_channel s1 f)"
    using updateFaderStates_channel [OF wf1 assms(5,2,3), of rnd cn] by blast
  have last: "events_of_fader f en = [SliderChanged f (c_trunc vn * 2)]"
    "\<not> is_fader_value_dirty s2 ! nat f" "previous_fader_values s2 ! nat f = c_trunc vn"
    using stn d1 l1 assms(10) by (simp_all add: fader_channel_def)
  have run: "updateFaderStates_frames rnd ((b0, c0) # mid @ [(bn, cn)]) st
      = Some (e0 # em @ [en], s2)"
    using up0 mid upn by (simp add: frames_append)
  have quiet: "\<forall>i. i \<le> length mid \<longrightarrow> events_of_fader f ((e0 # em @ [en]) ! i) = []"
  proof (intro allI impI)
    fix i assume i: "i \<le> length mid"
    show "events_of_fader f ((e0 # em @ [en]) ! i) = []"
    proof (cases i)
      case 0
      then show ?thesis using first(1) by simp
    next
      case (Suc k)
      then have "k < length em" using i lem by simp
      then show ?thesis using Suc nom by (simp add: nth_append)
    qed
  qed
  have fin: "(e0 # em @ [en]) ! (length mid + 1) = en"
    using lem by (simp add: nth_append)
  show ?thesis
    using up0 first run lem quiet vn last fin by simp
qed

theorem fader_coalescing_witness:
  "\<exists>evs st'. updateFaderStates_frames (\<lambda>x. x)
       [(fader_frame 0x00 0x08, \<lambda>_. 0),
        (fader_frame 0xFF 0x0F, \<lambda>_. 40000000),
        (fader_frame 0x00 0x08, \<lambda>_. 51000000)] analog_state_idle = Some (evs, st')
     \<and> events_of_fader 0 (evs ! 0) = [] \<and> events_of_fader 0 (evs ! 1) = []
     \<and> events_of_fader 0 (evs ! 2) = [SliderChanged 0 126]
     \<and> \<not> is_fader_value_dirty st' ! 0"
proof -
  let ?a = "fader_frame 0x00 0x08" and ?b = "fader_frame 0xFF 0x0F"
  let ?mid = "[(?b, \<lambda>_::int. 40000000::int)]"
  have h1: "wf_analog analog_state_idle" and h2: "(0::int) \<le> 0" and h3: "(0::int) \<le> 3"
    and h4: "length ?a = 22"
    and h6: "\<not> is_fader_value_dirty analog_state_idle ! nat 0"
    and h7: "FaderInputReader_getFaderValue (\<lambda>x. x) ?a 0 = Some 63"
    and h8: "c_trunc 63 \<noteq> previous_fader_values analog_state_idle ! nat 0"
    and h9: "\<forall>(b, c) \<in> set ?mid. length b = 22 \<and> elapsed_ms (c 0) ((\<lambda>_. 0) (0::int)) \<le> 50"
    and h10: "elapsed_ms ((\<lambda>_. 51000000) (0::int)) ((\<lambda>_. 0) (0::int)) > 50"
    by (simp_all add: analog_state_idle_facts length_fader_frame getFaderValue_fader_frame
          elapsed_ms_def signed_divide_int_def)
  obtain evs st' vn where r:
    "updateFaderStates_frames (\<lambda>x. x) ((?a, \<lambda>_. 0) # ?mid @ [(?a, \<lambda>_. 51000000)])
        analog_state_idle = Some (evs, st')"
    "\<forall>i. i \<le> length ?mid \<longrightarrow> events_of_fader 0 (evs ! i) = []"
    "FaderInputReader_getFaderValue (\<lambda>x. x) ?a 0 = Some vn"
    "events_of_fader 0 (evs ! (length ?mid + 1)) = [SliderChanged 0 (c_trunc vn * 2)]"
    "\<not> is_fader_value_dirty st' ! nat 0"
    using fader_coalescing [where st = analog_state_idle and f = 0 and ?b0.0 = ?a and bn = ?a
        and rnd = "\<lambda>x. x" and ?v0.0 = 63 and mid = ?mid and ?c0.0 = "\<lambda>_. 0"
        and cn = "\<lambda>_. 51000000", OF h1 h2 h3 h4 h4 h6 h7 h8 h9 h10]
    by blast
  have vn: "vn = 63"
    using r(3) h7 by simp
  have "events_of_fader 0 (evs ! 0) = []" "events_of_fader 0 (evs ! 1) = []"
    using r(2) by simp_all
  then show ?thesis
    using r(1,4,5) vn by (simp add: numeral_2_eq_2)
qed

end
